theory Spec2Isabelle
  imports Complex_Main
begin

section \<open>Data model\<close>

text \<open>
  The program is one class, \<^verbatim>\<open>CSVManager\<close> (\<^verbatim>\<open>csv_manager/manager.py\<close>), whose
  attribute \<^verbatim>\<open>self.data\<close> refers to a pandas DataFrame. The embedding keeps what the class
  does with that frame: a frame is an ordered list of column names, the dtype of each
  column, an optional index name, and an ordered list of rows, each row being its index
  label and its cells in column order. A cell is a Python or numpy scalar: an integer, a
  float, a string, a boolean, or the missing marker (\<^verbatim>\<open>None\<close> and \<^verbatim>\<open>NaN\<close> alike). A dtype
  is kept by its name (\<^verbatim>\<open>int64\<close>, \<^verbatim>\<open>float64\<close>, \<^verbatim>\<open>bool\<close>, \<^verbatim>\<open>object\<close>, ...).
\<close>

datatype cell = CNull | CNum int | CFloat real | CStr string | CBool bool

type_synonym dtype = string

record dataframe =
  columns :: "string list"
  dtypes :: "dtype list"
  index_name :: "string option"
  rows :: "(cell \<times> cell list) list"

text \<open>A column taken by itself, and a row as \<^verbatim>\<open>apply(..., axis=1)\<close> hands it to a callable:
  the label, and the cells by column.\<close>

type_synonym column = "dtype \<times> cell list"

type_synonym series = "cell \<times> (string \<times> cell) list"

text \<open>
  Exceptions. All are subclasses of Python's \<^verbatim>\<open>Exception\<close>; the class distinguishes
  \<^verbatim>\<open>pd.errors.EmptyDataError\<close> only in \<^verbatim>\<open>_load_csv\<close>. Asynchronous interrupts
  (\<^verbatim>\<open>KeyboardInterrupt\<close>, \<^verbatim>\<open>SystemExit\<close>) are not modelled.
\<close>

datatype pyexn = EmptyDataError | OtherException string

text \<open>
  A caller-supplied callable (predicate or update function) may raise and may have side
  effects on the world outside the manager, of type \<open>'w\<close>.
\<close>

type_synonym ('w, 'a) callable = "series \<Rightarrow> 'w \<Rightarrow> (pyexn + 'a) \<times> 'w"

definition pure_fn :: "(series \<Rightarrow> 'a) \<Rightarrow> ('w, 'a) callable" where
  "pure_fn f = (\<lambda>r w. (Inr (f r), w))"

text \<open>What a method call hands back: \<^verbatim>\<open>None\<close>, an integer, or a reference to a frame.\<close>

type_synonym addr = nat

datatype pyval = PNone | PInt int | PRef addr

text \<open>The lines the class prints, one constructor per \<^verbatim>\<open>print\<close> call of the source.\<close>

datatype msg =
    Loaded string "nat \<times> nat"
  | WarnNotFound string
  | WarnEmptyFile string
  | ErrLoading pyexn
  | NoDataToQuery
  | WarnColumnsIgnored "string set"
  | RowAdded "nat \<times> nat"
  | NoDataToUpdate
  | NoRowsMatched
  | WarnColumnNotFound string
  | Updated nat
  | NoDataToDelete
  | Deleted int "nat \<times> nat"
  | Saved string
  | ErrSaving pyexn

text \<open>
  The state: the manager's two attributes, the store of frame objects (\<open>self.data\<close> is a
  reference, so that a frame handed to the caller can be told apart from the manager's
  own), the printed lines, and the outside world. Objects are allocated at \<open>next_addr\<close>;
  in a state of a running program \<open>data st < next_addr st\<close>.
\<close>

record 'w state =
  filepath :: string
  data :: addr
  heap :: "addr \<Rightarrow> dataframe"
  next_addr :: addr
  stdout :: "msg list"
  env :: 'w

definition new :: "dataframe \<Rightarrow> 'w state \<Rightarrow> addr \<times> 'w state" where
  "new d st = (next_addr st, st\<lparr>heap := (heap st)(next_addr st := d), next_addr := Suc (next_addr st)\<rparr>)"

definition store :: "addr \<Rightarrow> dataframe \<Rightarrow> 'w state \<Rightarrow> 'w state" where
  "store a d st = st\<lparr>heap := (heap st)(a := d)\<rparr>"

definition py_print :: "msg \<Rightarrow> 'w state \<Rightarrow> 'w state" where
  "py_print m st = st\<lparr>stdout := stdout st @ [m]\<rparr>"

definition self_data :: "'w state \<Rightarrow> dataframe" where
  "self_data st = heap st (data st)"

section \<open>The typing rules of pandas\<close>

text \<open>
  Which dtype a column gets, and when an assignment is refused, is decided inside
  pandas and numpy, not by the class, and the rules differ between the versions of
  pandas the package admits (its \<^verbatim>\<open>setup.py\<close> requires \<^verbatim>\<open>pandas\<close> with no version). The
  methods therefore take the rules as a parameter \<open>ty\<close>, and every theorem holds for all
  of them:

  \<^item> \<open>infer_dtype vs\<close>: the dtype of an array built from the Python values \<open>vs\<close> (a
    column of \<^verbatim>\<open>pd.DataFrame([row])\<close>, the result of \<^verbatim>\<open>apply\<close>);
  \<^item> \<open>box t v\<close>: the Python value \<open>v\<close> as an array of dtype \<open>t\<close> stores it;
  \<^item> \<open>na_dtype\<close>: the dtype of the all-missing column that \<^verbatim>\<open>reindex\<close> makes for a name
    the frame lacks;
  \<^item> \<open>common_dtype a b\<close>: the dtype \<^verbatim>\<open>concat\<close> gives the column made of the pieces \<open>a\<close>
    and \<open>b\<close>;
  \<^item> \<open>row_dtype ts\<close>: the dtype of a row, as a Series, of a frame whose columns have
    the dtypes \<open>ts\<close>;
  \<^item> \<open>cast t t' v\<close>: the cell \<open>v\<close> of a column of dtype \<open>t\<close> converted to dtype \<open>t'\<close>;
  \<^item> \<open>setitem_dtype c sel v\<close>: what assigning \<open>v\<close> to the rows \<open>sel\<close> of the column \<open>c\<close>
    does: the exception raised when the column cannot take the values, or the dtype
    of the column after the assignment.
\<close>

datatype rhs = Scalar cell | Labelled dtype "(cell \<times> cell) list"

record typing =
  infer_dtype :: "cell list \<Rightarrow> dtype"
  box :: "dtype \<Rightarrow> cell \<Rightarrow> cell"
  na_dtype :: dtype
  common_dtype :: "column \<Rightarrow> column \<Rightarrow> dtype"
  row_dtype :: "dtype list \<Rightarrow> dtype"
  cast :: "dtype \<Rightarrow> dtype \<Rightarrow> cell \<Rightarrow> cell"
  setitem_dtype :: "column \<Rightarrow> bool list \<Rightarrow> rhs \<Rightarrow> pyexn + dtype"

text \<open>A conversion to the dtype a cell already has leaves the cell as it is.\<close>

definition astype :: "typing \<Rightarrow> dtype \<Rightarrow> dtype \<Rightarrow> cell \<Rightarrow> cell" where
  "astype ty t t' v = (if t' = t then v else cast ty t t' v)"

text \<open>The values a callable returned for the rows labelled \<open>labels\<close>, as the Series that
  \<^verbatim>\<open>apply\<close> builds of them.\<close>

definition Series :: "typing \<Rightarrow> cell list \<Rightarrow> cell list \<Rightarrow> rhs" where
  "Series ty labels vs =
     Labelled (infer_dtype ty vs) (zip labels (map (box ty (infer_dtype ty vs)) vs))"

section \<open>The pandas operations the class uses\<close>

definition DataFrame :: dataframe where
  "DataFrame = \<lparr>columns = [], dtypes = [], index_name = None, rows = []\<rparr>"

definition shape :: "dataframe \<Rightarrow> nat \<times> nat" where
  "shape d = (length (rows d), length (columns d))"

text \<open>\<^verbatim>\<open>DataFrame.empty\<close>: true when either axis has length 0.\<close>

definition df_empty :: "dataframe \<Rightarrow> bool" where
  "df_empty d = (rows d = [] \<or> columns d = [])"

definition RangeIndex :: "nat \<Rightarrow> cell list" where
  "RangeIndex n = map (\<lambda>i. CNum (int i)) [0..<n]"

definition index :: "dataframe \<Rightarrow> cell list" where
  "index d = map fst (rows d)"

text \<open>
  Look-up by column name: the dtype of the column named \<open>c\<close>, and the cell a row has
  under it. For a name the frame lacks these are the dtype and the cell of the
  all-missing column.
\<close>

definition dtype_of :: "typing \<Rightarrow> dataframe \<Rightarrow> string \<Rightarrow> dtype" where
  "dtype_of ty d c = (case map_of (zip (columns d) (dtypes d)) c of Some t \<Rightarrow> t | None \<Rightarrow> na_dtype ty)"

definition cell_of :: "dataframe \<Rightarrow> string \<Rightarrow> cell list \<Rightarrow> cell" where
  "cell_of d c cs = (case map_of (zip (columns d) cs) c of Some v \<Rightarrow> v | None \<Rightarrow> CNull)"

definition column_of :: "typing \<Rightarrow> dataframe \<Rightarrow> string \<Rightarrow> column" where
  "column_of ty d c = (dtype_of ty d c, map (\<lambda>r. cell_of d c (snd r)) (rows d))"


text \<open>\<^verbatim>\<open>d.reindex(columns=cols, fill_value=None)\<close>: the columns named, in that order; a
  column of \<open>d\<close> that is not named is dropped, a name \<open>d\<close> lacks gives an all-missing
  column.\<close>

definition reindex_columns :: "typing \<Rightarrow> string list \<Rightarrow> dataframe \<Rightarrow> dataframe" where
  "reindex_columns ty cols d =
     \<lparr>columns = cols, dtypes = map (dtype_of ty d) cols, index_name = index_name d,
      rows = map (\<lambda>(l, cs). (l, map (\<lambda>c. cell_of d c cs) cols)) (rows d)\<rparr>"


text \<open>\<^verbatim>\<open>d[mask]\<close> with a boolean mask over the rows.\<close>

definition getitem_mask :: "dataframe \<Rightarrow> bool list \<Rightarrow> dataframe" where
  "getitem_mask d bs = d\<lparr>rows := map fst (filter snd (zip (rows d) bs))\<rparr>"

text \<open>\<^verbatim>\<open>d[cols]\<close> with a list of names: a \<^verbatim>\<open>KeyError\<close> when one is not a column, and else
  the named columns in the order given.\<close>

definition getitem_columns :: "typing \<Rightarrow> dataframe \<Rightarrow> string list \<Rightarrow> pyexn + dataframe" where
  "getitem_columns ty d cols =
     (if set cols \<subseteq> set (columns d) then Inr (reindex_columns ty cols d)
      else Inl (OtherException ''KeyError''))"

text \<open>\<^verbatim>\<open>d.reset_index(drop=True)\<close>: the labels the rows had, and the name of the index,
  are discarded.\<close>

definition reset_index_drop :: "dataframe \<Rightarrow> dataframe" where
  "reset_index_drop d =
     d\<lparr>index_name := None, rows := zip (RangeIndex (length (rows d))) (map snd (rows d))\<rparr>"

text \<open>
  The rows of \<^verbatim>\<open>d.apply(f, axis=1)\<close>: each is handed over as a Series, its cells
  converted to the one dtype of the row. The application goes row by row, in order,
  and stops at the first exception.
\<close>

definition row_view :: "typing \<Rightarrow> dataframe \<Rightarrow> cell \<times> cell list \<Rightarrow> series" where
  "row_view ty d r =
     (fst r, zip (columns d)
               (map (\<lambda>(t, v). astype ty t (row_dtype ty (dtypes d)) v) (zip (dtypes d) (snd r))))"

definition iterrows :: "typing \<Rightarrow> dataframe \<Rightarrow> series list" where
  "iterrows ty d = map (row_view ty d) (rows d)"

fun apply_axis1 :: "('w, 'a) callable \<Rightarrow> series list \<Rightarrow> 'w \<Rightarrow> (pyexn + 'a list) \<times> 'w" where
  "apply_axis1 f [] w = (Inr [], w)"
| "apply_axis1 f (r # rs) w =
     (case f r w of
        (Inl e, w1) \<Rightarrow> (Inl e, w1)
      | (Inr v, w1) \<Rightarrow>
          (case apply_axis1 f rs w1 of
             (Inl e, w2) \<Rightarrow> (Inl e, w2)
           | (Inr vs, w2) \<Rightarrow> (Inr (v # vs), w2)))"

text \<open>
  Label-based access, \<^verbatim>\<open>d.loc[labels]\<close> and \<^verbatim>\<open>d.loc[labels, col] = v\<close> for a column \<open>col\<close>
  the frame has. The labels the class passes are those of the rows its mask selected,
  in table order. The model is that of an index with pairwise distinct labels (the
  default index, and the one left by \<^verbatim>\<open>add_row\<close> and \<^verbatim>\<open>delete_rows\<close>); what pandas does
  with repeated labels is outside it, and the theorems that depend on label look-up
  assume \<open>distinct (index d)\<close>.

  The assignment touches the one column named. pandas first decides whether the column
  can take the values (\<open>setitem_dtype\<close>); if not, the exception leaves the frame as it
  was. Otherwise the column has the dtype decided: a selected row takes the assigned
  value (the scalar, or the value the Series has at the row's label), stored in that
  dtype, and every other row keeps its cell, converted to that dtype.
\<close>

definition set_col :: "string list \<Rightarrow> string \<Rightarrow> 'a \<Rightarrow> 'a list \<Rightarrow> 'a list" where
  "set_col cols col v xs = map (\<lambda>(c, x). if c = col then v else x) (zip cols xs)"

definition loc_get :: "cell list \<Rightarrow> dataframe \<Rightarrow> dataframe" where
  "loc_get labels d = d\<lparr>rows := filter (\<lambda>(l, cs). l \<in> set labels) (rows d)\<rparr>"

definition assigned :: "typing \<Rightarrow> dtype \<Rightarrow> rhs \<Rightarrow> cell \<Rightarrow> cell" where
  "assigned ty t' v l =
     (case v of
        Scalar x \<Rightarrow> box ty t' x
      | Labelled t ser \<Rightarrow> (case map_of ser l of Some x \<Rightarrow> astype ty t t' x | None \<Rightarrow> CNull))"

definition loc_setitem :: "typing \<Rightarrow> cell list \<Rightarrow> string \<Rightarrow> rhs \<Rightarrow> dataframe \<Rightarrow> pyexn + dataframe" where
  "loc_setitem ty labels col v d =
     (case setitem_dtype ty (column_of ty d col) (map (\<lambda>r. fst r \<in> set labels) (rows d)) v of
        Inl e \<Rightarrow> Inl e
      | Inr t' \<Rightarrow>
          Inr (d\<lparr>dtypes := set_col (columns d) col t' (dtypes d),
                 rows := map (\<lambda>(l, cs).
                               (l, set_col (columns d) col
                                     (if l \<in> set labels then assigned ty t' v l
                                      else astype ty (dtype_of ty d col) t' (cell_of d col cs)) cs))
                             (rows d)\<rparr>))"

section \<open>The outside world: the file system as pandas sees it\<close>

text \<open>
  \<^verbatim>\<open>os.path.exists\<close>, \<^verbatim>\<open>pd.read_csv\<close> and \<^verbatim>\<open>DataFrame.to_csv\<close> are not code of the
  class; the methods take them as parameters. \<open>read_csv\<close> gets the path and the
  \<^verbatim>\<open>index_col\<close> argument (\<open>None\<close> when the class passes none); \<open>to_csv\<close> gets the frame,
  the path and the keyword arguments, of a type \<open>'k\<close> the class only passes through, and
  may change the world even when it raises.
\<close>

record ('w, 'k) pandas_io =
  path_exists :: "string \<Rightarrow> 'w \<Rightarrow> bool"
  read_csv :: "string \<Rightarrow> string option \<Rightarrow> 'w \<Rightarrow> pyexn + dataframe"
  to_csv :: "dataframe \<Rightarrow> string \<Rightarrow> 'k \<Rightarrow> 'w \<Rightarrow> pyexn option \<times> 'w"

section \<open>The methods of CSVManager\<close>

text \<open>
  Every method takes the state and returns the outcome of the call (\<open>Inl\<close> an exception
  that reaches the caller, \<open>Inr\<close> the returned value) with the state after it.
\<close>

type_synonym 'w outcome = "(pyexn + pyval) \<times> 'w state"

text \<open>\<^verbatim>\<open>_load_csv\<close> (lines 24 to 41). \<^verbatim>\<open>if index_col:\<close> is false for \<^verbatim>\<open>None\<close> and for the
  empty string.\<close>

definition load_csv :: "('w, 'k) pandas_io \<Rightarrow> string option \<Rightarrow> 'w state \<Rightarrow> addr \<times> 'w state" where
  "load_csv io index_col st =
     (if \<not> path_exists io (filepath st) (env st)
      then new DataFrame (py_print (WarnNotFound (filepath st)) st)
      else
        (case (if index_col \<noteq> None \<and> index_col \<noteq> Some []
               then read_csv io (filepath st) index_col (env st)
               else read_csv io (filepath st) None (env st)) of
           Inr df \<Rightarrow> new df st
         | Inl EmptyDataError \<Rightarrow> new DataFrame (py_print (WarnEmptyFile (filepath st)) st)
         | Inl (OtherException e) \<Rightarrow> new DataFrame (py_print (ErrLoading (OtherException e)) st)))"

text \<open>\<^verbatim>\<open>__init__\<close> (lines 10 to 22).\<close>

definition init :: "('w, 'k) pandas_io \<Rightarrow> string \<Rightarrow> string option \<Rightarrow> 'w state \<Rightarrow> 'w outcome" where
  "init io fp index_col st0 =
     (let st1 = st0\<lparr>filepath := fp\<rparr>;
          (a, st2) = load_csv io index_col st1;
          st3 = st2\<lparr>data := a\<rparr>
      in (Inr PNone, py_print (Loaded fp (shape (self_data st3))) st3))"

text \<open>\<^verbatim>\<open>query\<close> (lines 43 to 77). \<^verbatim>\<open>if condition_func:\<close> is false for \<^verbatim>\<open>None\<close> only;
  \<^verbatim>\<open>if columns:\<close> is false for \<^verbatim>\<open>None\<close> and for the empty list. The copy, the filtered
  frame and the frame of the selected columns are three new objects.\<close>

definition query_filter ::
  "typing \<Rightarrow> ('w, bool) callable option \<Rightarrow> addr \<Rightarrow> 'w state \<Rightarrow> (pyexn + addr) \<times> 'w state" where
  "query_filter ty condition_func q st =
     (case condition_func of
        None \<Rightarrow> (Inr q, st)
      | Some f \<Rightarrow>
          (case apply_axis1 f (iterrows ty (heap st q)) (env st) of
             (Inl e, w) \<Rightarrow> (Inl e, st\<lparr>env := w\<rparr>)
           | (Inr bs, w) \<Rightarrow>
               (let (q1, st1) = new (getitem_mask (heap st q) bs) (st\<lparr>env := w\<rparr>)
                in (Inr q1, st1))))"

definition query_select ::
  "typing \<Rightarrow> string list option \<Rightarrow> addr \<Rightarrow> 'w state \<Rightarrow> (pyexn + addr) \<times> 'w state" where
  "query_select ty cols q st =
     (case cols of
        None \<Rightarrow> (Inr q, st)
      | Some [] \<Rightarrow> (Inr q, st)
      | Some cs \<Rightarrow>
          (let existing_columns = filter (\<lambda>c. c \<in> set (columns (heap st q))) cs;
               st1 = (if length existing_columns < length cs
                      then py_print (WarnColumnsIgnored (set cs - set existing_columns)) st
                      else st)
           in (case getitem_columns ty (heap st1 q) existing_columns of
                 Inl e \<Rightarrow> (Inl e, st1)
               | Inr d \<Rightarrow> (let (q1, st2) = new d st1 in (Inr q1, st2)))))"

definition query ::
  "typing \<Rightarrow> ('w, bool) callable option \<Rightarrow> string list option \<Rightarrow> 'w state \<Rightarrow> 'w outcome" where
  "query ty condition_func cols st =
     (if df_empty (self_data st)
      then (let (a, st1) = new DataFrame (py_print NoDataToQuery st) in (Inr (PRef a), st1))
      else
        (let (q0, st0) = new (self_data st) st
         in (case query_filter ty condition_func q0 st0 of
               (Inl e, st1) \<Rightarrow> (Inl e, st1)
             | (Inr q1, st1) \<Rightarrow>
                 (case query_select ty cols q1 st1 of
                    (Inl e, st2) \<Rightarrow> (Inl e, st2)
                  | (Inr q2, st2) \<Rightarrow> (Inr (PRef q2), st2)))))"


text \<open>\<^verbatim>\<open>update_data\<close> (lines 98 to 137). An update is a static value or a callable
  (\<^verbatim>\<open>callable(value)\<close>); \<open>updates\<close> is the dict, as its items in order. The loop over the
  items writes into the frame \<^verbatim>\<open>self.data\<close> refers to, in place, column after column;
  an exception of a callable or of an assignment ends the call.\<close>

datatype 'w upd = Static cell | Fn "('w, cell) callable"

fun apply_updates ::
  "typing \<Rightarrow> cell list \<Rightarrow> (string \<times> 'w upd) list \<Rightarrow> 'w state \<Rightarrow> pyexn option \<times> 'w state" where
  "apply_updates ty idx [] st = (None, st)"
| "apply_updates ty idx ((col, value) # us) st =
     (if col \<in> set (columns (self_data st))
      then
        (case value of
           Fn f \<Rightarrow>
             (let sel = loc_get idx (self_data st)
              in (case apply_axis1 f (iterrows ty sel) (env st) of
                    (Inl e, w) \<Rightarrow> (Some e, st\<lparr>env := w\<rparr>)
                  | (Inr vs, w) \<Rightarrow>
                      (case loc_setitem ty idx col (Series ty (index sel) vs) (self_data st) of
                         Inl e \<Rightarrow> (Some e, st\<lparr>env := w\<rparr>)
                       | Inr d \<Rightarrow> apply_updates ty idx us (store (data st) d (st\<lparr>env := w\<rparr>)))))
         | Static v \<Rightarrow>
             (case loc_setitem ty idx col (Scalar v) (self_data st) of
                Inl e \<Rightarrow> (Some e, st)
              | Inr d \<Rightarrow> apply_updates ty idx us (store (data st) d st)))
      else apply_updates ty idx us (py_print (WarnColumnNotFound col) st))"

definition update_data ::
  "typing \<Rightarrow> ('w, bool) callable \<Rightarrow> (string \<times> 'w upd) list \<Rightarrow> 'w state \<Rightarrow> 'w outcome" where
  "update_data ty condition_func updates st =
     (if df_empty (self_data st) then (Inr PNone, py_print NoDataToUpdate st)
      else
        (case apply_axis1 condition_func (iterrows ty (self_data st)) (env st) of
           (Inl e, w) \<Rightarrow> (Inl e, st\<lparr>env := w\<rparr>)
         | (Inr bs, w) \<Rightarrow>
             (let st1 = st\<lparr>env := w\<rparr>;
                  rows_to_update_indices = index (getitem_mask (self_data st1) bs)
              in if rows_to_update_indices = [] then (Inr PNone, py_print NoRowsMatched st1)
                 else
                   (case apply_updates ty rows_to_update_indices updates st1 of
                      (Some e, st2) \<Rightarrow> (Inl e, st2)
                    | (None, st2) \<Rightarrow>
                        (Inr PNone, py_print (Updated (length rows_to_update_indices)) st2)))))"

text \<open>\<^verbatim>\<open>delete_rows\<close> (lines 139 to 157). There is no \<^verbatim>\<open>return\<close> statement: the count is
  computed for the printed line.\<close>

definition delete_rows :: "typing \<Rightarrow> ('w, bool) callable \<Rightarrow> 'w state \<Rightarrow> 'w outcome" where
  "delete_rows ty condition_func st =
     (if df_empty (self_data st) then (Inr PNone, py_print NoDataToDelete st)
      else
        (let original_shape = int (length (rows (self_data st)))
         in (case apply_axis1 condition_func (iterrows ty (self_data st)) (env st) of
               (Inl e, w) \<Rightarrow> (Inl e, st\<lparr>env := w\<rparr>)
             | (Inr bs, w) \<Rightarrow>
                 (let st1 = st\<lparr>env := w\<rparr>;
                      (a1, st2) = new (getitem_mask (self_data st1) (map Not bs)) st1;
                      (a2, st3) = new (reset_index_drop (heap st2 a1)) st2;
                      st4 = st3\<lparr>data := a2\<rparr>;
                      deleted_count = original_shape - int (length (rows (self_data st4)))
                  in (Inr PNone, py_print (Deleted deleted_count (shape (self_data st4))) st4)))))"

text \<open>\<^verbatim>\<open>save_changes\<close> (lines 160 to 175). \<^verbatim>\<open>output_filepath if output_filepath else
  self.filepath\<close>: the attribute is used for \<^verbatim>\<open>None\<close> and for the empty string.\<close>

definition save_changes :: "('w, 'k) pandas_io \<Rightarrow> string option \<Rightarrow> 'k \<Rightarrow> 'w state \<Rightarrow> 'w outcome" where
  "save_changes io output_filepath kwargs st =
     (let path_to_save = (case output_filepath of
                            None \<Rightarrow> filepath st
                          | Some p \<Rightarrow> if p \<noteq> [] then p else filepath st)
      in (case to_csv io (self_data st) path_to_save kwargs (env st) of
            (None, w) \<Rightarrow> (Inr PNone, py_print (Saved path_to_save) (st\<lparr>env := w\<rparr>))
          | (Some e, w) \<Rightarrow> (Inr PNone, py_print (ErrSaving e) (st\<lparr>env := w\<rparr>))))"

section \<open>A file system of comma-separated text\<close>

text \<open>
  For the claims about saving and loading again, the world is a file system: a map from
  paths to directories and files, the path of a file in a directory being the path of
  the directory, a slash, and the name (paths are compared as written: no \<^verbatim>\<open>.\<close>, \<^verbatim>\<open>..\<close>
  or repeated slash is resolved). A file holds comma-separated text, kept as its
  records: a list of lines, each a list of fields (quoting and escaping are what makes a
  field any string, and are not modelled).

  How a cell is written and how a column of fields is read back is pandas' own, and
  stays a parameter \<open>cd\<close>: \<open>render v\<close> is the field of the cell \<open>v\<close>; for a column whose
  fields are \<open>col\<close>, \<open>csv_dtype col\<close> is the dtype inferred and \<open>parse col tok\<close> the cell
  read from the field \<open>tok\<close>; \<open>dedup_name h i\<close> is the name given to the \<open>i\<close>-th column
  of a header \<open>h\<close> in which a name is repeated. The keyword argument modelled is
  \<^verbatim>\<open>index\<close> (\<open>None\<close> when the caller gives none; pandas' default is \<^verbatim>\<open>True\<close>).
\<close>

type_synonym csv = "string list list"

datatype node = Directory | File csv

type_synonym fs = "string \<Rightarrow> node option"

record codec =
  render :: "cell \<Rightarrow> string"
  csv_dtype :: "string list \<Rightarrow> dtype"
  parse :: "string list \<Rightarrow> string \<Rightarrow> cell"
  dedup_name :: "string list \<Rightarrow> nat \<Rightarrow> string"

fun digits :: "nat \<Rightarrow> string" where
  "digits n = (if n < 10 then [''0123456789'' ! n]
               else digits (n div 10) @ [''0123456789'' ! (n mod 10)])"

text \<open>\<^verbatim>\<open>to_csv\<close>: a header line, then one line per row; with \<^verbatim>\<open>index=True\<close> each line
  starts with the index (its name, empty when it has none, in the header).\<close>

definition to_csv_text :: "codec \<Rightarrow> bool \<Rightarrow> dataframe \<Rightarrow> csv" where
  "to_csv_text cd idx d =
     ((if idx then [case index_name d of None \<Rightarrow> [] | Some n \<Rightarrow> n] else []) @ columns d)
     # map (\<lambda>(l, cs). (if idx then [render cd l] else []) @ map (render cd) cs) (rows d)"

text \<open>\<^verbatim>\<open>read_csv\<close> names a header field that is empty \<^verbatim>\<open>Unnamed: i\<close> after its position,
  and renames when a name is then repeated.\<close>

definition header_names :: "codec \<Rightarrow> string list \<Rightarrow> string list" where
  "header_names cd h =
     (let ns = map (\<lambda>(i, n). if n = [] then ''Unnamed: '' @ digits i else n) (enumerate 0 h)
      in if distinct ns then ns else map (dedup_name cd ns) [0..<length ns])"

definition field :: "string list \<Rightarrow> nat \<Rightarrow> string" where
  "field r j = (if j < length r then r ! j else [])"

definition drop_nth :: "nat \<Rightarrow> 'a list \<Rightarrow> 'a list" where
  "drop_nth j xs = take j xs @ drop (Suc j) xs"

text \<open>
  \<^verbatim>\<open>read_csv\<close>: blank lines are skipped; no line left is an \<^verbatim>\<open>EmptyDataError\<close>; the first
  line is the header; a shorter line is padded with empty fields and a longer one is a
  \<^verbatim>\<open>ParserError\<close> (pandas reads lines that are all longer than the header as carrying an
  unnamed index; that reading is not modelled, no theorem below loads such a file).
  With \<^verbatim>\<open>index_col\<close> the named column becomes the index, and a name the header lacks is
  a \<^verbatim>\<open>ValueError\<close>.
\<close>

definition read_csv_text :: "codec \<Rightarrow> string option \<Rightarrow> csv \<Rightarrow> pyexn + dataframe" where
  "read_csv_text cd index_col g =
     (case filter (\<lambda>r. r \<noteq> []) g of
        [] \<Rightarrow> Inl EmptyDataError
      | h # recs \<Rightarrow>
          if list_ex (\<lambda>r. length h < length r) recs then Inl (OtherException ''ParserError'')
          else
            (let names = header_names cd h;
                 fields = (\<lambda>j. map (\<lambda>r. field r j) recs);
                 ts = map (\<lambda>j. csv_dtype cd (fields j)) [0..<length h];
                 parsed = map (\<lambda>r. map (\<lambda>j. parse cd (fields j) (field r j)) [0..<length h]) recs
             in (case index_col of
                   None \<Rightarrow>
                     Inr \<lparr>columns = names, dtypes = ts, index_name = None,
                          rows = zip (RangeIndex (length parsed)) parsed\<rparr>
                 | Some k \<Rightarrow>
                     if k \<in> set names
                     then (let j = length (takeWhile (\<lambda>n. n \<noteq> k) names)
                           in Inr \<lparr>columns = drop_nth j names, dtypes = drop_nth j ts,
                                   index_name = Some k,
                                   rows = map (\<lambda>cs. (cs ! j, drop_nth j cs)) parsed\<rparr>)
                     else Inl (OtherException ''ValueError''))))"

text \<open>
  The directory a path lies in: the text before its last slash, empty for a path with
  no slash (the current directory) and for a path directly under the root. Opening a
  file for writing fails for the empty path, for a path whose directory does not exist,
  and for the path of a directory.
\<close>

definition dirname :: "string \<Rightarrow> string" where
  "dirname p = rev (tl (dropWhile (\<lambda>c. c \<noteq> CHR ''/'') (rev p)))"

definition csv_io :: "codec \<Rightarrow> (fs, bool option) pandas_io" where
  "csv_io cd =
     \<lparr>path_exists = (\<lambda>p w. p \<noteq> [] \<and> w p \<noteq> None),
      read_csv = (\<lambda>p index_col w.
         case w p of
           None \<Rightarrow> Inl (OtherException ''FileNotFoundError'')
         | Some Directory \<Rightarrow> Inl (OtherException ''IsADirectoryError'')
         | Some (File g) \<Rightarrow> read_csv_text cd index_col g),
      to_csv = (\<lambda>d p kwargs w.
         if p = [] then (Some (OtherException ''FileNotFoundError''), w)
         else if dirname p \<noteq> [] \<and> w (dirname p) \<noteq> Some Directory
         then (Some (OtherException ''OSError''), w)
         else
           (case w p of
              Some Directory \<Rightarrow> (Some (OtherException ''IsADirectoryError''), w)
            | _ \<Rightarrow> (None, w(p \<mapsto> File (to_csv_text cd (case kwargs of None \<Rightarrow> True | Some b \<Rightarrow> b) d)))))\<rparr>"

section \<open>Rules and inputs for the examples\<close>

text \<open>
  The examples need one choice of the typing rules and of the text of cells. The
  instance \<open>pandas_typing\<close> has the four dtypes \<^verbatim>\<open>int64\<close>, \<^verbatim>\<open>float64\<close>, \<^verbatim>\<open>bool\<close> and
  \<^verbatim>\<open>object\<close>. An array of booleans is \<^verbatim>\<open>bool\<close>, one of integers that fit in 64 bits is
  \<^verbatim>\<open>int64\<close>, one of numbers some of which are floats or missing is \<^verbatim>\<open>float64\<close>, any other
  is \<^verbatim>\<open>object\<close>. The common dtype of \<^verbatim>\<open>int64\<close> and \<^verbatim>\<open>float64\<close> is \<^verbatim>\<open>float64\<close>, that of two
  other different dtypes is \<^verbatim>\<open>object\<close>. An integer becomes the nearest float (ties to
  the even mantissa of 53 bits). A column takes an assigned value that its dtype holds
  without loss, and refuses any other with a \<^verbatim>\<open>TypeError\<close>, as pandas 3 does (pandas 2
  converts the column instead, with a warning); an \<^verbatim>\<open>object\<close> column takes every value.
  The examples below use it on integers and strings only.
\<close>

definition in_int64 :: "int \<Rightarrow> bool" where
  "in_int64 n = (- (2 ^ 63) \<le> n \<and> n < 2 ^ 63)"

fun bit_length :: "nat \<Rightarrow> nat" where
  "bit_length n = (if n = 0 then 0 else Suc (bit_length (n div 2)))"

declare bit_length.simps [simp del]

definition round53 :: "int \<Rightarrow> int" where
  "round53 n =
     (let m = nat \<bar>n\<bar>; k = bit_length m - 53; q = m div 2 ^ k; r = m mod 2 ^ k
      in if k = 0 then n
         else sgn n * int ((if 2 ^ k < 2 * r \<or> (2 * r = 2 ^ k \<and> odd q) then q + 1 else q) * 2 ^ k))"

fun is_bool :: "cell \<Rightarrow> bool" where
  "is_bool (CBool b) = True"
| "is_bool v = False"

fun is_int :: "cell \<Rightarrow> bool" where
  "is_int (CNum n) = in_int64 n"
| "is_int v = False"

fun is_number :: "cell \<Rightarrow> bool" where
  "is_number (CNum n) = in_int64 n"
| "is_number (CFloat x) = True"
| "is_number v = False"

fun is_integral :: "cell \<Rightarrow> bool" where
  "is_integral (CNum n) = in_int64 n"
| "is_integral (CFloat x) = (x = of_int \<lfloor>x\<rfloor> \<and> in_int64 \<lfloor>x\<rfloor>)"
| "is_integral v = False"

fun to_float :: "cell \<Rightarrow> cell" where
  "to_float (CNum n) = CFloat (of_int (round53 n))"
| "to_float (CBool b) = CFloat (if b then 1 else 0)"
| "to_float v = v"

fun to_int :: "cell \<Rightarrow> cell" where
  "to_int (CFloat x) = CNum \<lfloor>x\<rfloor>"
| "to_int (CBool b) = CNum (if b then 1 else 0)"
| "to_int v = v"

definition numeric :: "dtype \<Rightarrow> bool" where
  "numeric t = (t = ''int64'' \<or> t = ''float64'')"

definition rhs_values :: "rhs \<Rightarrow> cell list" where
  "rhs_values v = (case v of Scalar x \<Rightarrow> [x] | Labelled t ser \<Rightarrow> map snd ser)"

definition pandas_typing :: typing where
  "pandas_typing =
     \<lparr>infer_dtype = (\<lambda>vs.
         if vs \<noteq> [] \<and> list_all is_bool vs then ''bool''
         else if vs \<noteq> [] \<and> list_all is_int vs then ''int64''
         else if list_ex is_number vs \<and> list_all (\<lambda>v. is_number v \<or> v = CNull) vs then ''float64''
         else ''object''),
      box = (\<lambda>t v. if t = ''float64'' then to_float v else v),
      na_dtype = ''float64'',
      common_dtype = (\<lambda>a b.
         if fst a = fst b then fst a
         else if numeric (fst a) \<and> numeric (fst b) then ''float64''
         else ''object''),
      row_dtype = (\<lambda>ts.
         if ts \<noteq> [] \<and> list_all (\<lambda>t. t = hd ts) ts then hd ts
         else if ts \<noteq> [] \<and> list_all numeric ts then ''float64''
         else ''object''),
      cast = (\<lambda>t t' v.
         if t' = ''float64'' then to_float v else if t' = ''int64'' then to_int v else v),
      setitem_dtype = (\<lambda>c sel v.
         if fst c = ''int64'' \<and> \<not> list_all is_integral (rhs_values v)
            \<or> fst c = ''float64'' \<and> \<not> list_all (\<lambda>x. is_number x \<or> x = CNull) (rhs_values v)
            \<or> fst c = ''bool'' \<and> \<not> list_all is_bool (rhs_values v)
         then Inl (OtherException ''TypeError'')
         else Inr (fst c))\<rparr>"

text \<open>
  The instance \<open>pandas_codec\<close> writes an integer in decimal, a boolean as \<^verbatim>\<open>True\<close> or
  \<^verbatim>\<open>False\<close>, a string as it is and a missing cell as the empty field. It reads a column
  whose fields are all decimal integers as \<^verbatim>\<open>int64\<close>, one of integers and empty fields
  as \<^verbatim>\<open>float64\<close>, one of \<^verbatim>\<open>True\<close> and \<^verbatim>\<open>False\<close> as \<^verbatim>\<open>bool\<close>, and any other as \<^verbatim>\<open>object\<close>,
  where an empty field is a missing cell, \<^verbatim>\<open>True\<close> and \<^verbatim>\<open>False\<close> are booleans when the
  column holds nothing else, and every other field is a string. It is an instance for
  tables of integers, booleans and plain strings: decimal fractions, exponents, signs
  other than the minus, surrounding blanks and the spellings of a missing value other
  than the empty field are outside it, and a float is written by its integral part
  followed by \<^verbatim>\<open>.0\<close>, which is its text when it is integral. A repeated name gets
  the number of its earlier occurrences as a suffix.
\<close>

definition signed :: "int \<Rightarrow> string" where
  "signed n = (if n < 0 then ''-'' @ digits (nat (- n)) else digits (nat n))"

fun render_cell :: "cell \<Rightarrow> string" where
  "render_cell CNull = []"
| "render_cell (CNum n) = signed n"
| "render_cell (CFloat x) = signed \<lfloor>x\<rfloor> @ ''.0''"
| "render_cell (CStr s) = s"
| "render_cell (CBool b) = (if b then ''True'' else ''False'')"

definition is_digits :: "string \<Rightarrow> bool" where
  "is_digits s = (s \<noteq> [] \<and> list_all (\<lambda>c. c \<in> set ''0123456789'') s)"

definition parse_nat :: "string \<Rightarrow> nat" where
  "parse_nat s = foldl (\<lambda>n c. 10 * n + length (takeWhile (\<lambda>d. d \<noteq> c) ''0123456789'')) 0 s"

definition is_integer :: "string \<Rightarrow> bool" where
  "is_integer s = (case s of
       [] \<Rightarrow> False
     | c # cs \<Rightarrow> if c = CHR ''-'' then is_digits cs \<and> parse_nat cs \<le> 2 ^ 63
                else is_digits s \<and> parse_nat s < 2 ^ 63)"

definition parse_int :: "string \<Rightarrow> int" where
  "parse_int s = (case s of
       [] \<Rightarrow> 0
     | c # cs \<Rightarrow> if c = CHR ''-'' then - int (parse_nat cs) else int (parse_nat s))"

definition is_boolean :: "string \<Rightarrow> bool" where
  "is_boolean s = (s = ''True'' \<or> s = ''False'')"

definition kind :: "string list \<Rightarrow> dtype" where
  "kind col =
     (if col \<noteq> [] \<and> list_all is_integer col then ''int64''
      else if col \<noteq> [] \<and> list_all (\<lambda>t. t = [] \<or> is_integer t) col then ''float64''
      else if col \<noteq> [] \<and> list_all is_boolean col then ''bool''
      else ''object'')"

definition infer_cell :: "string list \<Rightarrow> string \<Rightarrow> cell" where
  "infer_cell col tok =
     (if tok = [] then CNull
      else if kind col = ''int64'' then CNum (parse_int tok)
      else if kind col = ''float64'' then CFloat (of_int (round53 (parse_int tok)))
      else if list_all (\<lambda>t. t = [] \<or> is_boolean t) col then CBool (tok = ''True'')
      else CStr tok)"

definition pandas_codec :: codec where
  "pandas_codec =
     \<lparr>render = render_cell, csv_dtype = kind, parse = infer_cell,
      dedup_name = (\<lambda>h i. let n = count_list (take i h) (h ! i)
                           in if n = 0 then h ! i else h ! i @ ''.'' @ digits n)\<rparr>"

text \<open>The table of the specification's scenario: names \<open>a\<close> and \<open>b\<close>, ages 30 and 25.\<close>

definition table_ab :: dataframe where
  "table_ab = \<lparr>columns = [''name'', ''age''], dtypes = [''object'', ''int64''], index_name = None,
               rows = [(CNum 0, [CStr ''a'', CNum 30]), (CNum 1, [CStr ''b'', CNum 25])]\<rparr>"

definition state_of :: "dataframe \<Rightarrow> 'w \<Rightarrow> 'w state" where
  "state_of d w = \<lparr>filepath = ''people.csv'', data = 0, heap = (\<lambda>a. DataFrame)(0 := d),
                   next_addr = 1, stdout = [], env = w\<rparr>"

definition num_at :: "string \<Rightarrow> series \<Rightarrow> int" where
  "num_at c r = (case map_of (snd r) c of Some (CNum n) \<Rightarrow> n | _ \<Rightarrow> 0)"

text \<open>A predicate that raises on every row and counts its calls in the world.\<close>

definition raising_predicate :: "(nat, bool) callable" where
  "raising_predicate = (\<lambda>r w. (Inl (OtherException ''boom''), Suc w))"

text \<open>A table of two integer columns, for the update that reads each from the other.\<close>

definition table_AB :: dataframe where
  "table_AB = \<lparr>columns = [''A'', ''B''], dtypes = [''int64'', ''int64''], index_name = None,
               rows = [(CNum 0, [CNum 1, CNum 10])]\<rparr>"

definition swap_updates :: "(string \<times> 'w upd) list" where
  "swap_updates = [(''A'', Fn (pure_fn (\<lambda>r. CNum (num_at ''B'' r + 1)))),
                   (''B'', Fn (pure_fn (\<lambda>r. CNum (num_at ''A'' r + 1))))]"

text \<open>A world in which \<open>out\<close> is a directory, so that writing to it fails.\<close>

definition fs_dir :: fs where
  "fs_dir = Map.empty(''out'' \<mapsto> Directory)"

section \<open>Notions used in the statements\<close>



section \<open>The rules of the examples, field by field\<close>










lemma csv_dtype_pandas: "csv_dtype pandas_codec = kind"
  by (simp add: pandas_codec_def)

lemma parse_pandas: "parse pandas_codec = infer_cell"
  by (simp add: pandas_codec_def)






section \<open>Saving\<close>

text \<open>
  C9. \<^verbatim>\<open>save_changes\<close> never raises and returns \<^verbatim>\<open>None\<close> whether the write succeeded or
  failed: whatever \<^verbatim>\<open>to_csv\<close> does (any exception it raises is an \<open>Exception\<close> and is
  caught), for every destination, keyword arguments and state, the outcome of the call
  is the value \<^verbatim>\<open>None\<close>. The returned value therefore does not tell a failed save from a
  successful one.
\<close>

theorem save_changes_returns_None:
  "fst (save_changes io output_filepath kwargs st) = Inr PNone"
  by (simp add: save_changes_def Let_def split: prod.splits option.splits)

theorem save_changes_returns_None_witness:
  "fst (save_changes (csv_io pandas_codec) (Some ''out'') None (state_of table_ab fs_dir)) = Inr PNone
   \<and> fst (to_csv (csv_io pandas_codec) table_ab ''out'' None fs_dir) = Some (OtherException ''IsADirectoryError'')
   \<and> fst (save_changes (csv_io pandas_codec) (Some ''ok'') None (state_of table_ab fs_dir)) = Inr PNone
   \<and> fst (to_csv (csv_io pandas_codec) table_ab ''ok'' None fs_dir) = None"
  using save_changes_returns_None [of "csv_io pandas_codec" "Some ''out''" None "state_of table_ab fs_dir"]
        save_changes_returns_None [of "csv_io pandas_codec" "Some ''ok''" None "state_of table_ab fs_dir"]
  by (simp add: csv_io_def dirname_def fs_dir_def)

section \<open>The empty table\<close>

text \<open>
  C10. On a table with zero rows, \<^verbatim>\<open>query\<close>, \<^verbatim>\<open>update_data\<close> and \<^verbatim>\<open>delete_rows\<close> return at
  once and never call the predicate: for every predicate \<open>p\<close>, also one that raises or
  changes the world on every call, the call returns normally and the state after it is
  the state before it with the notice printed (and, for \<^verbatim>\<open>query\<close>, the new empty frame
  allocated); the world \<open>env\<close> is untouched and nothing in the result depends on \<open>p\<close>.
\<close>

theorem empty_table_skips_predicate:
  assumes "rows (self_data st) = []"
  shows "query ty (Some p) cols st =
           (Inr (PRef (next_addr st)),
            st\<lparr>heap := (heap st)(next_addr st := DataFrame), next_addr := Suc (next_addr st),
               stdout := stdout st @ [NoDataToQuery]\<rparr>)
       \<and> update_data ty p updates st = (Inr PNone, st\<lparr>stdout := stdout st @ [NoDataToUpdate]\<rparr>)
       \<and> delete_rows ty p st = (Inr PNone, st\<lparr>stdout := stdout st @ [NoDataToDelete]\<rparr>)"
  using assms
  by (simp add: query_def update_data_def delete_rows_def df_empty_def new_def py_print_def)

theorem empty_table_skips_predicate_witness:
  "rows (self_data (state_of DataFrame (0::nat))) = []
   \<and> fst (raising_predicate (CNum 0, []) 0) = Inl (OtherException ''boom'')
   \<and> fst (query pandas_typing (Some raising_predicate) None (state_of DataFrame 0)) = Inr (PRef 1)
   \<and> env (snd (query pandas_typing (Some raising_predicate) None (state_of DataFrame 0))) = 0
   \<and> update_data pandas_typing raising_predicate [] (state_of DataFrame 0)
       = (Inr PNone, (state_of DataFrame 0)\<lparr>stdout := [NoDataToUpdate]\<rparr>)
   \<and> delete_rows pandas_typing raising_predicate (state_of DataFrame 0)
       = (Inr PNone, (state_of DataFrame 0)\<lparr>stdout := [NoDataToDelete]\<rparr>)"
  using empty_table_skips_predicate [of "state_of DataFrame (0::nat)" pandas_typing raising_predicate None "[]"]
  by (simp add: state_of_def self_data_def DataFrame_def raising_predicate_def)

section \<open>Loading\<close>

text \<open>
  C6. Loading never hands a failure to the caller. For every path, \<^verbatim>\<open>index_col\<close>, state
  and world, constructing the manager returns normally; and when the source does not
  exist, or \<^verbatim>\<open>read_csv\<close> raises (an \<^verbatim>\<open>EmptyDataError\<close> for an empty file, any other
  exception for a file that cannot be parsed), \<^verbatim>\<open>self.data\<close> is a new frame with no
  column and no row, and the condition is printed: a warning for the missing and the
  empty file, the error line for another failure.
\<close>

theorem init_absorbs_load_failures:
  fixes io :: "('w, 'k) pandas_io"
  defines "arg \<equiv> (\<lambda>index_col. if index_col \<noteq> None \<and> index_col \<noteq> Some [] then index_col else None)"
  shows "fst (init io fp index_col st) = Inr PNone
       \<and> ((\<not> path_exists io fp (env st) \<or> read_csv io fp (arg index_col) (env st) = Inl e) \<longrightarrow>
            (\<exists>m. init io fp index_col st =
                   (Inr PNone,
                    st\<lparr>filepath := fp, data := next_addr st,
                       heap := (heap st)(next_addr st := DataFrame), next_addr := Suc (next_addr st),
                       stdout := stdout st @ [m, Loaded fp (0, 0)]\<rparr>)
                 \<and> m = (if \<not> path_exists io fp (env st) then WarnNotFound fp
                        else if e = EmptyDataError then WarnEmptyFile fp else ErrLoading e)))"
  by (cases e)
     (auto simp: arg_def init_def load_csv_def new_def py_print_def self_data_def shape_def DataFrame_def Let_def
        split: prod.splits sum.splits pyexn.splits)

theorem init_absorbs_load_failures_witness:
  "fst (init (csv_io pandas_codec) ''missing'' None (state_of table_ab fs_dir)) = Inr PNone
   \<and> \<not> path_exists (csv_io pandas_codec) ''missing'' fs_dir
   \<and> self_data (snd (init (csv_io pandas_codec) ''missing'' None (state_of table_ab fs_dir))) = DataFrame
   \<and> stdout (snd (init (csv_io pandas_codec) ''missing'' None (state_of table_ab fs_dir)))
       = [WarnNotFound ''missing'', Loaded ''missing'' (0, 0)]
   \<and> path_exists (csv_io pandas_codec) ''out'' fs_dir
   \<and> read_csv (csv_io pandas_codec) ''out'' None fs_dir = Inl (OtherException ''IsADirectoryError'')
   \<and> self_data (snd (init (csv_io pandas_codec) ''out'' None (state_of table_ab fs_dir))) = DataFrame
   \<and> stdout (snd (init (csv_io pandas_codec) ''out'' None (state_of table_ab fs_dir)))
       = [ErrLoading (OtherException ''IsADirectoryError''), Loaded ''out'' (0, 0)]"
  using init_absorbs_load_failures [of "csv_io pandas_codec" "''missing''" None "state_of table_ab fs_dir" EmptyDataError]
        init_absorbs_load_failures [of "csv_io pandas_codec" "''out''" None "state_of table_ab fs_dir" "OtherException ''IsADirectoryError''"]
  by (simp add: csv_io_def dirname_def fs_dir_def state_of_def self_data_def)




section \<open>Deleting rows\<close>


lemma filter_by_mask: "map fst (filter snd (zip xs (map g xs))) = filter g xs"
  by (induction xs) simp_all




lemma getitem_mask_rows: "getitem_mask d (map g (rows d)) = d\<lparr>rows := filter g (rows d)\<rparr>"
  by (simp add: getitem_mask_def filter_by_mask)

lemma getitem_mask_selected:
  "getitem_mask d (map P (iterrows ty d)) = d\<lparr>rows := filter (\<lambda>r. P (row_view ty d r)) (rows d)\<rparr>"
  using getitem_mask_rows [of d "\<lambda>r. P (row_view ty d r)"] by (simp add: iterrows_def comp_def)






section \<open>Adding a row\<close>
















end
